theory Spec2Isabelle
  imports Main "HOL-Library.AList"
begin

section \<open>Agent Builder frontend logic: data model\<close>

text \<open>
  The wizard keeps one module-level object \<open>state\<close> and mutates it from event handlers.
  The model passes that object explicitly: every handler takes the state and returns the
  new one, or the way it failed. Plain JavaScript objects used as dictionaries (\<open>state.selected\<close>,
  \<open>state.toolDetails\<close>, \<open>state.paramValues\<close>, the parameter maps) are association lists in
  insertion order, holding the object's own properties: \<open>map_of obj k\<close> is the own property
  \<open>k\<close>, \<open>AList.update k v obj\<close> writes it (in place for an existing key, appended for a new
  one) and \<open>delete obj[k]\<close> is \<open>AList.delete k obj\<close>.
\<close>

type_synonym 'v obj = "(string \<times> 'v) list"

text \<open>
  These objects are created by \<open>{}\<close> or by \<open>JSON.parse\<close>, so a read \<open>obj[k]\<close> that finds no
  own property goes on to \<open>Object.prototype\<close>: for the names below it gives a function (the
  prototype itself for \<open>__proto__\<close>), never \<open>undefined\<close>.
\<close>

definition inherited_name :: "string \<Rightarrow> bool" where
  "inherited_name k =
     (k \<in> set [''constructor'', ''__proto__'', ''hasOwnProperty'', ''isPrototypeOf'',
               ''propertyIsEnumerable'', ''toLocaleString'', ''toString'', ''valueOf'',
               ''__defineGetter__'', ''__defineSetter__'', ''__lookupGetter__'',
               ''__lookupSetter__''])"

datatype 'v js_prop = Own 'v | Inherited | Undefined

text \<open>The read \<open>obj[k]\<close>.\<close>

definition js_get :: "'v obj \<Rightarrow> string \<Rightarrow> 'v js_prop" where
  "js_get ob k =
     (case map_of ob k of
        Some v \<Rightarrow> Own v
      | None \<Rightarrow> (if inherited_name k then Inherited else Undefined))"

text \<open>
  The write \<open>obj[k] = v\<close> creates or updates the own property, except for \<open>__proto__\<close> on an
  object without such an own property: that write goes to the setter of \<open>Object.prototype\<close>,
  which ignores a string and makes an array the object's prototype. The own properties stay
  as they are in both cases.
\<close>

definition proto_setter :: "'v obj \<Rightarrow> string \<Rightarrow> bool" where
  "proto_setter ob k = (k = ''__proto__'' \<and> map_of ob k = None)"

definition js_set :: "string \<Rightarrow> 'v \<Rightarrow> 'v obj \<Rightarrow> 'v obj" where
  "js_set k v ob = (if proto_setter ob k then ob else AList.update k v ob)"

text \<open>
  How a handler ends when it does not return: with a \<open>TypeError\<close> (a property of
  \<open>undefined\<close> is read or written, or something that is no function is called), or in a way
  the model does not follow (\<open>Not_modelled\<close>).
\<close>

datatype failure = TypeError | Not_modelled

text \<open>
  A parameter value is a string (text inputs, selects) or an array of strings (multi-select
  chips). \<open>Member\<close> is what a read gives for an inherited name: a value that is neither; no
  handler stores one.
\<close>

datatype jsval = Str string | Arr "string list" | Member

text \<open>The two sections of a tool, the strings \<open>'deploy_params'\<close> and \<open>'runtime_params'\<close> of the source.\<close>

datatype param_section = DeployParams | RuntimeParams

text \<open>One schema field of the catalog; \<open>default_val = None\<close> is a field without a \<open>default\<close> property.\<close>

record paramField =
  label :: string
  ftype :: string
  default_val :: "jsval option"
  required :: bool
  options :: "string list"
  show_if :: "(string \<times> string) option"
  description :: string
  placeholder :: string

text \<open>\<open>state.toolDetails[id]\<close>: the fetched tool detail with its two schema sections.\<close>

record toolDetail =
  detail_name :: string
  detail_deploy_params :: "paramField obj"
  detail_runtime_params :: "paramField obj"

text \<open>\<open>state.selected[id]\<close>: the overrides entered for an active tool.\<close>

record tool_params =
  deploy_params :: "jsval obj"
  runtime_params :: "jsval obj"

record promptParam =
  pp_key :: string
  pp_label :: string
  pp_type :: string
  pp_options :: "string list"
  pp_default :: string
  pp_required :: bool
  pp_description :: string
  pp_placeholder :: string

record deployed_agent =
  da_name :: string
  da_id :: string
  da_version :: int
  da_prompt_params :: "promptParam list"

datatype role = User | Assistant | Context

record message =
  role :: role
  content :: string
  toolCalls :: "string list option"

text \<open>
  The \<open>state\<close> object. The catalog list, the catalog filter, the health results and the tool
  form fields are left out: no modelled handler reads or writes them.
\<close>

record state =
  step :: nat
  toolDetails :: "toolDetail obj"
  selected :: "tool_params obj"
  agentName :: string
  agentModel :: string
  instructions :: string
  deployedAgent :: "deployed_agent option"
  chatHistory :: "message list"
  previousResponseId :: "string option"
  promptParams :: "promptParam list"
  paramValues :: "string obj"
  chatParamsConfirmed :: bool

definition initial_state :: state where
  "initial_state = \<lparr> step = 1, toolDetails = [], selected = [], agentName = [],
     agentModel = ''gpt-4.1'', instructions = [], deployedAgent = None, chatHistory = [],
     previousResponseId = None, promptParams = [], paramValues = [],
     chatParamsConfirmed = False \<rparr>"

section \<open>Strings\<close>

text \<open>
  \<open>String.prototype.trim\<close> removes white space and line terminators at both ends. Characters
  are bytes here, so the set is the part of JavaScript's below 256: tab, line feed, vertical
  tab, form feed, carriage return, space and no-break space.
\<close>

definition is_space :: "char \<Rightarrow> bool" where
  "is_space c = (c \<in> set [CHR 0x09, CHR 0x0A, CHR 0x0B, CHR 0x0C, CHR 0x0D, CHR 0x20, CHR 0xA0])"

definition trim :: "string \<Rightarrow> string" where
  "trim s = rev (dropWhile is_space (rev (dropWhile is_space s)))"

text \<open>\<open>Array.prototype.join\<close>.\<close>

fun join :: "string \<Rightarrow> string list \<Rightarrow> string" where
  "join sep [] = []"
| "join sep [x] = x"
| "join sep (x # y # ys) = x @ sep @ join sep (y # ys)"

section \<open>Rendering: the parts that write the state\<close>

definition getActivePromptParams :: "state \<Rightarrow> promptParam list" where
  "getActivePromptParams st =
     (if promptParams st \<noteq> [] then promptParams st
      else (case deployedAgent st of None \<Rightarrow> [] | Some a \<Rightarrow> da_prompt_params a))"

text \<open>The loop at the head of \<open>renderChatParamForm\<close>: every key not yet set gets \<open>p.default || ''\<close>.\<close>

fun prefill :: "string obj \<Rightarrow> promptParam list \<Rightarrow> string obj" where
  "prefill pv [] = pv"
| "prefill pv (p # ps) =
     prefill (case js_get pv (pp_key p) of
                Undefined \<Rightarrow> AList.update (pp_key p) (pp_default p) pv
              | _ \<Rightarrow> pv) ps"

definition renderChatParamForm :: "promptParam list \<Rightarrow> state \<Rightarrow> state" where
  "renderChatParamForm params st = st\<lparr> paramValues := prefill (paramValues st) params \<rparr>"

definition renderChat :: "state \<Rightarrow> state" where
  "renderChat st =
     (let params = getActivePromptParams st
      in if params \<noteq> [] \<and> \<not> chatParamsConfirmed st then renderChatParamForm params st else st)"

text \<open>
  \<open>renderStep\<close> dispatches on \<open>state.step\<close>. Steps 1 and 3 only write markup. Steps 2 and 4
  (\<open>renderToolParams\<close>, \<open>renderDeploy\<close>) are asynchronous: up to their first \<open>await\<close> they write
  markup only, and what they do when the answer arrives is a handler of its own below.
  Step 5 (\<open>renderChat\<close>) may pre-fill \<open>state.paramValues\<close>.
\<close>

definition renderStep :: "state \<Rightarrow> state" where
  "renderStep st = (if step st = 5 then renderChat st else st)"

section \<open>Step 1: tool selection\<close>


section \<open>Step 2: tool parameters\<close>

definition section_of :: "param_section \<Rightarrow> tool_params \<Rightarrow> jsval obj" where
  "section_of sec e = (case sec of DeployParams \<Rightarrow> deploy_params e | RuntimeParams \<Rightarrow> runtime_params e)"

definition schema_of :: "param_section \<Rightarrow> toolDetail \<Rightarrow> paramField obj" where
  "schema_of sec d =
     (case sec of DeployParams \<Rightarrow> detail_deploy_params d | RuntimeParams \<Rightarrow> detail_runtime_params d)"

text \<open>The read \<open>map[key]\<close> on a parameter map.\<close>

definition read_value :: "jsval obj \<Rightarrow> string \<Rightarrow> jsval option" where
  "read_value ob k = (case js_get ob k of Own v \<Rightarrow> Some v | Inherited \<Rightarrow> Some Member | Undefined \<Rightarrow> None)"

text \<open>
  \<open>state.selected[toolId]?.[section]?.[key]\<close>, \<open>None\<close> for \<open>undefined\<close>. Only an own entry of
  \<open>state.selected\<close> has the two parameter maps: reading \<open>[section]\<close> from an inherited member
  gives \<open>undefined\<close>, as a missing entry does.
\<close>

definition stored_override :: "state \<Rightarrow> string \<Rightarrow> param_section \<Rightarrow> string \<Rightarrow> jsval option" where
  "stored_override st toolId sec key =
     (case map_of (selected st) toolId of None \<Rightarrow> None | Some e \<Rightarrow> read_value (section_of sec e) key)"

text \<open>
  What \<open>renderParamField\<close> writes for one field, as far as the handlers read it back: the form
  group with its \<open>data-showif-*\<close> attributes and its \<open>style.display\<close>, the value shown in the
  input, and the chips drawn as selected.
\<close>

record showif_attr =
  showif_tool :: string
  showif_section :: param_section
  showif_key :: string
  showif_value :: string

record form_group =
  fg_tool :: string
  fg_section :: param_section
  fg_key :: string
  fg_value :: jsval
  fg_chips :: "string list"
  showif :: "showif_attr option"
  display_none :: bool

text \<open>The constant \<open>value\<close> of \<open>renderParamField\<close>: \<open>stored !== undefined ? stored : (param.default ?? '')\<close>.\<close>

definition paramValue :: "state \<Rightarrow> string \<Rightarrow> param_section \<Rightarrow> string \<Rightarrow> paramField \<Rightarrow> jsval" where
  "paramValue st toolId sec key param =
     (case stored_override st toolId sec key of
        Some stored \<Rightarrow> stored
      | None \<Rightarrow> (case default_val param of Some d \<Rightarrow> d | None \<Rightarrow> Str []))"

text \<open>\<open>Array.isArray(value) ? value : []\<close>.\<close>

definition array_or_empty :: "jsval \<Rightarrow> string list" where
  "array_or_empty v = (case v of Arr xs \<Rightarrow> xs | Str s \<Rightarrow> [] | Member \<Rightarrow> [])"

text \<open>The chips of a multi-select are its options; those the value includes are drawn selected.\<close>

definition renderParamField :: "state \<Rightarrow> string \<Rightarrow> param_section \<Rightarrow> string \<Rightarrow> paramField \<Rightarrow> form_group" where
  "renderParamField st toolId sec key param =
     (let v = paramValue st toolId sec key param
      in \<lparr> fg_tool = toolId, fg_section = sec, fg_key = key, fg_value = v,
           fg_chips = (if ftype param = ''multi_select''
                       then filter (\<lambda>x. x \<in> set (array_or_empty v)) (options param) else []),
           showif = (case show_if param of
                       None \<Rightarrow> None
                     | Some (condKey, condVal) \<Rightarrow>
                         Some \<lparr> showif_tool = toolId, showif_section = sec,
                                showif_key = condKey, showif_value = condVal \<rparr>),
           display_none = False \<rparr>)"

text \<open>
  The markup goes to the page through \<open>innerHTML\<close>, and \<open>handleShowIf\<close> reads the attributes
  back from \<open>dataset\<close>. The template puts the tool id, the key and the \<open>show_if\<close> pair between
  double quotes without escaping them. A text without double quote, ampersand, carriage
  return and NUL is read back as written; for any other text the parser's reading is not
  modelled (\<open>None\<close>).
\<close>

definition attr_safe :: "string \<Rightarrow> bool" where
  "attr_safe s = list_all (\<lambda>c. c \<notin> set [CHR 0x22, CHR 0x26, CHR 0x0D, CHR 0x00]) s"

definition parsed_group :: "form_group \<Rightarrow> form_group option" where
  "parsed_group g =
     (if attr_safe (fg_tool g) \<and> attr_safe (fg_key g)
         \<and> (case showif g of None \<Rightarrow> True | Some a \<Rightarrow> attr_safe (showif_key a) \<and> attr_safe (showif_value a))
      then Some g else None)"

text \<open>
  \<open>currentVal\<close> of \<open>handleShowIf\<close>: the stored override, else the default of the controlling
  field in the loaded tool detail, else the empty string. In the second read every inherited
  member ends in \<open>undefined\<close> like a missing one (it has no \<open>[section]\<close> and no \<open>.default\<close>).
\<close>

definition currentVal :: "state \<Rightarrow> string \<Rightarrow> param_section \<Rightarrow> string \<Rightarrow> jsval" where
  "currentVal st toolId sec condKey =
     (case stored_override st toolId sec condKey of
        Some v \<Rightarrow> v
      | None \<Rightarrow>
          (case map_of (toolDetails st) toolId of
             None \<Rightarrow> Str []
           | Some d \<Rightarrow>
               (case map_of (schema_of sec d) condKey of
                  None \<Rightarrow> Str []
                | Some f \<Rightarrow> (case default_val f of None \<Rightarrow> Str [] | Some dv \<Rightarrow> dv))))"

text \<open>
  \<open>handleShowIf\<close> visits the elements that carry \<open>data-showif-key\<close> and sets their display:
  shown when \<open>currentVal === condVal\<close>, where \<open>condVal\<close> is the attribute's string.
\<close>

definition handleShowIf :: "state \<Rightarrow> form_group list \<Rightarrow> form_group list" where
  "handleShowIf st els =
     map (\<lambda>el. case showif el of
                 None \<Rightarrow> el
               | Some a \<Rightarrow>
                   el\<lparr> display_none :=
                         (currentVal st (showif_tool a) (showif_section a) (showif_key a)
                            \<noteq> Str (showif_value a)) \<rparr>) els"

text \<open>
  \<open>if (!state.selected[toolId]) state.selected[toolId] = { deploy_params: {}, runtime_params: {} }\<close>:
  an own entry and an inherited member are both truthy.
\<close>

definition ensure_selected :: "string \<Rightarrow> state \<Rightarrow> state" where
  "ensure_selected toolId st =
     (case js_get (selected st) toolId of
        Undefined \<Rightarrow>
          st\<lparr> selected := AList.update toolId \<lparr> deploy_params = [], runtime_params = [] \<rparr> (selected st) \<rparr>
      | _ \<Rightarrow> st)"

text \<open>\<open>entry[section][key] = value\<close> on an own entry.\<close>

definition set_section :: "param_section \<Rightarrow> string \<Rightarrow> jsval \<Rightarrow> tool_params \<Rightarrow> tool_params" where
  "set_section sec key v e =
     (case sec of
        DeployParams \<Rightarrow> e\<lparr> deploy_params := js_set key v (deploy_params e) \<rparr>
      | RuntimeParams \<Rightarrow> e\<lparr> runtime_params := js_set key v (runtime_params e) \<rparr>)"

definition write_override :: "string \<Rightarrow> param_section \<Rightarrow> string \<Rightarrow> jsval \<Rightarrow> state \<Rightarrow> state" where
  "write_override toolId sec key v st =
     st\<lparr> selected := AList.map_entry toolId (set_section sec key v) (selected st) \<rparr>"

text \<open>
  \<open>setParam\<close> is the \<open>onchange\<close> handler of the inputs and selects; its value is the input's
  string. It writes the override and re-evaluates the visibility of the form groups on the
  page. When the tool id names an inherited member and has no entry, no entry is created and
  \<open>state.selected[toolId][section]\<close> is \<open>undefined\<close>: the write throws before anything is
  stored.
\<close>

definition setParam ::
  "string \<Rightarrow> param_section \<Rightarrow> string \<Rightarrow> string \<Rightarrow> state \<times> form_group list
     \<Rightarrow> failure + state \<times> form_group list" where
  "setParam toolId sec key v ui =
     (let st1 = ensure_selected toolId (fst ui)
      in case map_of (selected st1) toolId of
           None \<Rightarrow> Inl TypeError
         | Some e \<Rightarrow>
             (let st' = write_override toolId sec key (Str v) st1
              in Inr (st', handleShowIf st' (snd ui))))"

text \<open>
  \<open>toggleMultiParam\<close> throws in the same way at the read of \<open>current\<close>. Its write of an array
  to the key \<open>__proto__\<close> of a map without that own property replaces the map's prototype;
  the model stops there.
\<close>

definition toggleMultiParam ::
  "string \<Rightarrow> param_section \<Rightarrow> string \<Rightarrow> string \<Rightarrow> state \<Rightarrow> failure + state" where
  "toggleMultiParam toolId sec key opt st =
     (let st1 = ensure_selected toolId st
      in case map_of (selected st1) toolId of
           None \<Rightarrow> Inl TypeError
         | Some e \<Rightarrow>
             (let arr = (case read_value (section_of sec e) key of Some (Arr xs) \<Rightarrow> xs | _ \<Rightarrow> []);
                  arr' = (if opt \<in> set arr then filter (\<lambda>x. x \<noteq> opt) arr else arr @ [opt])
              in if proto_setter (section_of sec e) key then Inl Not_modelled
                 else Inr (renderStep (write_override toolId sec key (Arr arr') st1))))"

section \<open>Navigation\<close>

text \<open>
  \<open>goToStep\<close> reads two inputs of the page, \<open>#agent-name\<close> and \<open>#agent-instructions\<close>; an
  element that is not on the page is \<open>None\<close>.
\<close>

record page_inputs =
  agent_name_input :: "string option"
  agent_instructions_input :: "string option"

text \<open>\<open>document.getElementById(..)?.value?.trim() || old\<close>.\<close>

definition trimmed_or :: "string option \<Rightarrow> string \<Rightarrow> string" where
  "trimmed_or inp old = (case inp of None \<Rightarrow> old | Some v \<Rightarrow> (if trim v \<noteq> [] then trim v else old))"

definition goToStep :: "nat \<Rightarrow> page_inputs \<Rightarrow> state \<Rightarrow> state" where
  "goToStep n page st =
     (if n = 4 then
        (let st1 = st\<lparr> agentName := trimmed_or (agent_name_input page) (agentName st),
                       instructions := trimmed_or (agent_instructions_input page) (instructions st) \<rparr>
         in if agentName st1 = [] \<or> instructions st1 = [] then st1
            else renderStep (st1\<lparr> step := n \<rparr>))
      else renderStep (st\<lparr> step := n \<rparr>))"

section \<open>Step 4: deploy\<close>

text \<open>
  The loops of \<open>renderDeploy\<close> that merge catalog defaults into the copied overrides. The
  test \<open>deployFilled[k] === undefined\<close> is a read of the copy, a plain object again.
\<close>

fun fill_defaults :: "jsval obj \<Rightarrow> paramField obj \<Rightarrow> jsval obj" where
  "fill_defaults filled [] = filled"
| "fill_defaults filled ((k, v) # rest) =
     fill_defaults
       (case (js_get filled k, default_val v) of
          (Undefined, Some d) \<Rightarrow> AList.update k d filled
        | _ \<Rightarrow> filled) rest"

record payload_tool =
  tool_id :: string
  payload_deploy_params :: "jsval obj"
  payload_runtime_params :: "jsval obj"

record deploy_payload =
  payload_name :: string
  payload_model :: string
  payload_instructions :: string
  payload_tools :: "payload_tool list"
  payload_prompt_params :: "promptParam list"

text \<open>
  The function mapped over \<open>Object.entries(state.selected)\<close>. When \<open>state.toolDetails[tool_id]\<close>
  is an inherited member, \<open>detail.deploy_params || {}\<close> is empty and nothing is merged, as
  for a missing detail.
\<close>

definition tool_entry :: "state \<Rightarrow> string \<times> tool_params \<Rightarrow> payload_tool" where
  "tool_entry st ent =
     (case ent of (tid, params) \<Rightarrow>
        (case map_of (toolDetails st) tid of
           None \<Rightarrow> \<lparr> tool_id = tid, payload_deploy_params = deploy_params params,
                     payload_runtime_params = runtime_params params \<rparr>
         | Some detail \<Rightarrow>
             \<lparr> tool_id = tid,
               payload_deploy_params = fill_defaults (deploy_params params) (detail_deploy_params detail),
               payload_runtime_params = fill_defaults (runtime_params params) (detail_runtime_params detail) \<rparr>))"

definition renderDeploy_payload :: "state \<Rightarrow> deploy_payload" where
  "renderDeploy_payload st =
     \<lparr> payload_name = trim (agentName st),
       payload_model = agentModel st,
       payload_instructions = trim (instructions st),
       payload_tools = map (tool_entry st) (selected st),
       payload_prompt_params = filter (\<lambda>p. trim (pp_key p) \<noteq> []) (promptParams st) \<rparr>"

text \<open>
  The answer of \<open>POST /api/agents\<close>: the created agent, or a failure (a response that is not
  ok, or a rejected request) with its message.
\<close>

datatype deploy_response = DeployOk deployed_agent | DeployFailed string

text \<open>
  \<open>renderDeploy\<close> after the \<open>await\<close>: on success it stores the agent, clears the chat and goes
  to step 5; the \<open>catch\<close> branch only draws the failure panel with its "Back to Config"
  button, which calls \<open>goToStep(3)\<close>.
\<close>

definition renderDeploy :: "deploy_response \<Rightarrow> state \<Rightarrow> state" where
  "renderDeploy resp st =
     (case resp of
        DeployOk agent \<Rightarrow>
          renderStep (st\<lparr> deployedAgent := Some agent, chatHistory := [],
                          previousResponseId := None, step := 5 \<rparr>)
      | DeployFailed err \<Rightarrow> st)"

section \<open>Step 5: chat\<close>

text \<open>
  The loop of \<open>confirmChatParams\<close> over the required parameters, with the test
  \<open>!state.paramValues[p.key]?.trim()\<close>: it stops at the first parameter whose value is missing
  or blank after trimming. An inherited member is not nullish and has no \<open>trim\<close>: the call
  throws.
\<close>

fun required_check :: "string obj \<Rightarrow> promptParam list \<Rightarrow> failure + promptParam option" where
  "required_check pv [] = Inr None"
| "required_check pv (p # ps) =
     (if pp_required p then
        (case js_get pv (pp_key p) of
           Inherited \<Rightarrow> Inl TypeError
         | Undefined \<Rightarrow> Inr (Some p)
         | Own v \<Rightarrow> (if trim v = [] then Inr (Some p) else required_check pv ps))
      else required_check pv ps)"

text \<open>\<open>p.label || p.key\<close>.\<close>

definition label_or_key :: "promptParam \<Rightarrow> string" where
  "label_or_key p = (if pp_label p \<noteq> [] then pp_label p else pp_key p)"

text \<open>
  The text of an inherited member in a template literal, as the current engines print it:
  the prototype object for \<open>__proto__\<close>, a native function otherwise.
\<close>

definition member_text :: "string \<Rightarrow> string" where
  "member_text k =
     (if k = ''__proto__'' then ''[object Object]''
      else ''function '' @ (if k = ''constructor'' then ''Object'' else k) @ ''() { [native code] }'')"

text \<open>\<open>state.paramValues[p.key] || p.default || ''\<close>, as the template literal prints it.\<close>

definition shown_value :: "state \<Rightarrow> promptParam \<Rightarrow> string" where
  "shown_value st p =
     (case js_get (paramValues st) (pp_key p) of
        Undefined \<Rightarrow> pp_default p
      | Own v \<Rightarrow> (if v \<noteq> [] then v else pp_default p)
      | Inherited \<Rightarrow> member_text (pp_key p))"

text \<open>One line of the context message, \<open>null\<close> (dropped by \<open>filter(Boolean)\<close>) for an empty value.\<close>

definition summary_line :: "state \<Rightarrow> promptParam \<Rightarrow> string option" where
  "summary_line st p =
     (let val = shown_value st p
      in if val = [] then None else Some (''**'' @ label_or_key p @ '':** '' @ val))"

definition context_message :: "string list \<Rightarrow> message" where
  "context_message lines =
     \<lparr> role = Context, content = ''Agent parameters set:'' @ [CHR 0x0A] @ join [CHR 0x0A] lines,
       toolCalls = None \<rparr>"

text \<open>
  \<open>confirmChatParams\<close> returns the text of the alert when it refuses (it has written nothing
  by then), and no alert when it confirms.
\<close>

definition confirmChatParams :: "state \<Rightarrow> failure + string option \<times> state" where
  "confirmChatParams st =
     (let params = getActivePromptParams st
      in case required_check (paramValues st) params of
           Inl err \<Rightarrow> Inl err
         | Inr (Some p) \<Rightarrow> Inr (Some ([CHR 0x22] @ label_or_key p @ [CHR 0x22] @ '' is required.''), st)
         | Inr None \<Rightarrow>
             (let st1 = st\<lparr> chatParamsConfirmed := True \<rparr>;
                  lines = List.map_filter (summary_line st1) params;
                  st2 = (if lines \<noteq> []
                         then st1\<lparr> chatHistory := chatHistory st1 @ [context_message lines] \<rparr>
                         else st1)
              in Inr (None, renderStep st2)))"

definition editChatParams :: "state \<Rightarrow> state" where
  "editChatParams st = renderStep (st\<lparr> chatParamsConfirmed := False \<rparr>)"

record chat_request =
  agent_name :: string
  req_message :: string
  previous_response_id :: "string option"
  param_values :: "string obj"

record chat_data =
  response_id :: "string option"
  resp_text :: string
  tool_calls :: "string list option"

datatype chat_response = ChatOk chat_data | ChatFailed string

text \<open>
  \<open>sendChat\<close> up to its \<open>await\<close>: nothing happens for a blank message; otherwise the user
  message is pushed and the request is built from the state.
\<close>

definition sendChat_request :: "string \<Rightarrow> state \<Rightarrow> (chat_request \<times> state) option" where
  "sendChat_request inp st =
     (let msg = trim inp
      in if msg = [] then None
         else Some
           (\<lparr> agent_name = (case deployedAgent st of
                               None \<Rightarrow> agentName st
                             | Some a \<Rightarrow> (if da_name a \<noteq> [] then da_name a else agentName st)),
              req_message = msg,
              previous_response_id = previousResponseId st,
              param_values = paramValues st \<rparr>,
            st\<lparr> chatHistory := chatHistory st @ [\<lparr> role = User, content = msg, toolCalls = None \<rparr>] \<rparr>))"

text \<open>\<open>sendChat\<close> after the \<open>await\<close>: the \<open>try\<close> branch for an answer, the \<open>catch\<close> branch for a failure.\<close>

definition sendChat_response :: "chat_response \<Rightarrow> state \<Rightarrow> state" where
  "sendChat_response resp st =
     (case resp of
        ChatOk d \<Rightarrow>
          st\<lparr> previousResponseId := response_id d,
              chatHistory := chatHistory st
                 @ [\<lparr> role = Assistant, content = resp_text d, toolCalls = tool_calls d \<rparr>] \<rparr>
      | ChatFailed err \<Rightarrow>
          st\<lparr> chatHistory := chatHistory st
                 @ [\<lparr> role = Assistant, content = ''Error: '' @ err, toolCalls = Some [] \<rparr>] \<rparr>)"

text \<open>
  \<open>sendChat\<close> is called by the Send button and by the Enter key of the input. It disables
  the button while it waits, but not the input, so it can be called again before the answer
  to the earlier call has arrived. A conversation is therefore a sequence of two kinds of
  events, the call up to the \<open>await\<close> and the continuation of an earlier call with its answer;
  the result is the list of requests sent.
\<close>

datatype chat_event = Send string | Receive chat_response

fun sent_requests :: "state \<Rightarrow> chat_event list \<Rightarrow> chat_request list" where
  "sent_requests st [] = []"
| "sent_requests st (Send inp # es) =
     (case sendChat_request inp st of
        None \<Rightarrow> sent_requests st es
      | Some (req, st1) \<Rightarrow> req # sent_requests st1 es)"
| "sent_requests st (Receive resp # es) = sent_requests (sendChat_response resp st) es"

text \<open>The conversation in which every answer arrives before the next message is sent.\<close>

fun one_at_a_time :: "(string \<times> chat_response) list \<Rightarrow> chat_event list" where
  "one_at_a_time [] = []"
| "one_at_a_time ((inp, resp) # turns) = Send inp # Receive resp # one_at_a_time turns"

definition updateAgent :: "state \<Rightarrow> state" where
  "updateAgent st =
     (let st1 = (case deployedAgent st of
                   Some a \<Rightarrow> (if da_prompt_params a \<noteq> [] \<and> promptParams st = []
                              then st\<lparr> promptParams := da_prompt_params a \<rparr> else st)
                 | None \<Rightarrow> st)
      in renderStep (st1\<lparr> step := 1, deployedAgent := None, chatHistory := [],
                          previousResponseId := None, chatParamsConfirmed := False,
                          paramValues := [] \<rparr>))"

section \<open>What is stored, and the value the claims call resolved\<close>

text \<open>
  The override a tool's own entry holds under a key of a section, as \<open>Object.entries\<close> and
  the payload see it.
\<close>

definition own_override :: "state \<Rightarrow> string \<Rightarrow> param_section \<Rightarrow> string \<Rightarrow> jsval option" where
  "own_override st t s k =
     (case map_of (selected st) t of
        None \<Rightarrow> None
      | Some e \<Rightarrow> map_of (case s of DeployParams \<Rightarrow> deploy_params e | RuntimeParams \<Rightarrow> runtime_params e) k)"

text \<open>
  The resolved value of a key in the words of the specification: the explicit override if
  present, else the default of the field the tool declares under the key, else the empty
  string.
\<close>

definition resolve_spec :: "state \<Rightarrow> string \<Rightarrow> param_section \<Rightarrow> string \<Rightarrow> jsval" where
  "resolve_spec st t s k =
     (case own_override st t s k of
        Some v \<Rightarrow> v
      | None \<Rightarrow>
          (case map_of (toolDetails st) t of
             None \<Rightarrow> Str []
           | Some d \<Rightarrow>
               (case map_of (case s of DeployParams \<Rightarrow> detail_deploy_params d
                                     | RuntimeParams \<Rightarrow> detail_runtime_params d) k of
                  None \<Rightarrow> Str []
                | Some f \<Rightarrow> (case default_val f of None \<Rightarrow> Str [] | Some dv \<Rightarrow> dv))))"

section \<open>Example data\<close>

text \<open>The catalog's weather tool, as the tool detail endpoint returns it.\<close>

definition plain_field :: "string \<Rightarrow> string \<Rightarrow> jsval option \<Rightarrow> bool \<Rightarrow> paramField" where
  "plain_field lbl ty dflt req =
     \<lparr> label = lbl, ftype = ty, default_val = dflt, required = req, options = [],
       show_if = None, description = [], placeholder = [] \<rparr>"

definition operations_field :: paramField where
  "operations_field =
     (plain_field ''Operations to include'' ''multi_select'' (Some (Arr [''getWeather''])) True)
       \<lparr> options := [''getWeather''] \<rparr>"

definition weather_detail :: toolDetail where
  "weather_detail =
     \<lparr> detail_name = ''Weather API'',
       detail_deploy_params =
         [(''spec_url'', plain_field ''OpenAPI Spec URL'' ''string'' (Some (Str ''https://example.test/openapi.json'')) True),
          (''operations'', operations_field),
          (''auth_type'', (plain_field ''Authentication'' ''select'' (Some (Str ''anonymous'')) True)
                             \<lparr> options := [''anonymous'', ''project_connection'', ''managed_identity''] \<rparr>),
          (''project_connection_id'', (plain_field ''Project Connection'' ''connection_picker'' (Some (Str [])) False)
                             \<lparr> show_if := Some (''auth_type'', ''project_connection'') \<rparr>)],
       detail_runtime_params =
         [(''default_units'', (plain_field ''Temperature units'' ''select'' (Some (Str ''fahrenheit'')) False)
                             \<lparr> options := [''fahrenheit'', ''celsius''] \<rparr>),
          (''default_location'', plain_field ''Default city'' ''string'' (Some (Str [])) False)] \<rparr>"

text \<open>A custom tool with one required field that declares no default.\<close>

definition search_detail :: toolDetail where
  "search_detail =
     \<lparr> detail_name = ''Search'',
       detail_deploy_params = [(''api_key'', plain_field ''API key'' ''password'' None True)],
       detail_runtime_params = [] \<rparr>"

text \<open>Step 2 with the weather tool chosen and nothing entered yet.\<close>

definition weather_state :: state where
  "weather_state =
     initial_state\<lparr> step := 2, toolDetails := [(''mock-weather'', weather_detail)],
                    selected := [(''mock-weather'', \<lparr> deploy_params = [], runtime_params = [] \<rparr>)] \<rparr>"

text \<open>Step 2 with the search tool chosen and nothing entered yet.\<close>

definition search_state :: state where
  "search_state =
     initial_state\<lparr> step := 2, toolDetails := [(''search'', search_detail)],
                    selected := [(''search'', \<lparr> deploy_params = [], runtime_params = [] \<rparr>)] \<rparr>"

text \<open>Step 3 with a name and instructions entered; the page inputs hold the same texts.\<close>

definition draft_state :: "string \<Rightarrow> string \<Rightarrow> state" where
  "draft_state nm ins = weather_state\<lparr> step := 3, agentName := nm, instructions := ins \<rparr>"

definition draft_page :: "string \<Rightarrow> string \<Rightarrow> page_inputs" where
  "draft_page nm ins = \<lparr> agent_name_input = Some nm, agent_instructions_input = Some ins \<rparr>"

definition no_page :: page_inputs where
  "no_page = \<lparr> agent_name_input = None, agent_instructions_input = None \<rparr>"

text \<open>A deployed agent with prompt parameters, opened in the chat step.\<close>

definition purpose_param :: promptParam where
  "purpose_param =
     \<lparr> pp_key = ''purpose'', pp_label = ''Purpose of email'', pp_type = ''string'', pp_options = [],
       pp_default = [], pp_required = True, pp_description = [], pp_placeholder = [] \<rparr>"

definition tone_param :: promptParam where
  "tone_param =
     \<lparr> pp_key = ''tone'', pp_label = ''Tone'', pp_type = ''string'', pp_options = [],
       pp_default = [], pp_required = False, pp_description = [], pp_placeholder = [] \<rparr>"

definition chat_state :: "promptParam list \<Rightarrow> string obj \<Rightarrow> state" where
  "chat_state params vals =
     initial_state\<lparr> step := 5, agentName := ''bot-1'',
                    deployedAgent := Some \<lparr> da_name = ''bot-1'', da_id = ''a1'', da_version = 1,
                                            da_prompt_params = [] \<rparr>,
                    promptParams := params, paramValues := vals \<rparr>"

definition answer :: "string \<Rightarrow> string \<Rightarrow> chat_response" where
  "answer rid txt = ChatOk \<lparr> response_id = Some rid, resp_text = txt, tool_calls = Some [] \<rparr>"

text \<open>A tool whose second and third field each depend on the first.\<close>

definition basic_hint_field :: paramField where
  "basic_hint_field =
     (plain_field ''Hint'' ''string'' (Some (Str [])) False) \<lparr> show_if := Some (''mode'', ''basic'') \<rparr>"

definition advanced_key_field :: paramField where
  "advanced_key_field =
     (plain_field ''Key'' ''password'' None True) \<lparr> show_if := Some (''mode'', ''advanced'') \<rparr>"

definition gated_detail :: toolDetail where
  "gated_detail =
     \<lparr> detail_name = ''Gated'',
       detail_deploy_params =
         [(''mode'', (plain_field ''Mode'' ''select'' (Some (Str ''basic'')) True)
                       \<lparr> options := [''basic'', ''advanced''] \<rparr>),
          (''basic_hint'', basic_hint_field),
          (''advanced_key'', advanced_key_field)],
       detail_runtime_params = [] \<rparr>"

definition gated_state :: state where
  "gated_state =
     initial_state\<lparr> step := 2, toolDetails := [(''gated'', gated_detail)],
                    selected := [(''gated'', \<lparr> deploy_params = [], runtime_params = [] \<rparr>)] \<rparr>"

text \<open>The form groups of its two dependent fields, as first drawn.\<close>

definition gated_groups :: "form_group list" where
  "gated_groups =
     [renderParamField gated_state ''gated'' DeployParams ''basic_hint'' basic_hint_field,
      renderParamField gated_state ''gated'' DeployParams ''advanced_key'' advanced_key_field]"

text \<open>
  A tool with a field named like a member of \<open>Object.prototype\<close>, and a field that depends
  on it.
\<close>

definition constructor_field :: paramField where
  "constructor_field =
     (plain_field ''Constructor'' ''select'' (Some (Str ''x'')) False) \<lparr> options := [''x'', ''y''] \<rparr>"

definition extra_field :: paramField where
  "extra_field =
     (plain_field ''Extra'' ''string'' (Some (Str [])) False) \<lparr> show_if := Some (''constructor'', ''x'') \<rparr>"

definition odd_detail :: toolDetail where
  "odd_detail =
     \<lparr> detail_name = ''Odd'',
       detail_deploy_params =
         [(''constructor'', constructor_field),
          (''region'', plain_field ''Region'' ''string'' (Some (Str ''eu'')) False),
          (''extra'', extra_field)],
       detail_runtime_params = [] \<rparr>"

definition odd_state :: state where
  "odd_state =
     initial_state\<lparr> step := 2, toolDetails := [(''odd'', odd_detail)],
                    selected := [(''odd'', \<lparr> deploy_params = [], runtime_params = [] \<rparr>)] \<rparr>"

text \<open>Two more prompt parameters: one without label and with a default, one named \<open>constructor\<close>.\<close>

definition style_param :: promptParam where
  "style_param =
     \<lparr> pp_key = ''style'', pp_label = [], pp_type = ''select'', pp_options = [''formal'', ''casual''],
       pp_default = ''formal'', pp_required = False, pp_description = [], pp_placeholder = [] \<rparr>"

definition constructor_param :: promptParam where
  "constructor_param =
     \<lparr> pp_key = ''constructor'', pp_label = [], pp_type = ''string'', pp_options = [],
       pp_default = [], pp_required = True, pp_description = [], pp_placeholder = [] \<rparr>"

text \<open>The weather state after one and after two toggles of the chip \<open>getWeather\<close>.\<close>

definition weather_toggled_once :: state where
  "weather_toggled_once =
     weather_state\<lparr> selected :=
       [(''mock-weather'', \<lparr> deploy_params = [(''operations'', Arr [''getWeather''])],
                              runtime_params = [] \<rparr>)] \<rparr>"

definition weather_toggled_twice :: state where
  "weather_toggled_twice =
     weather_state\<lparr> selected :=
       [(''mock-weather'', \<lparr> deploy_params = [(''operations'', Arr [])],
                              runtime_params = [] \<rparr>)] \<rparr>"

text \<open>The chat step opened for an existing agent, whose prompt parameters come with the agent.\<close>

definition resumed_state :: state where
  "resumed_state =
     initial_state\<lparr> step := 5, agentName := ''bot-1'',
                    deployedAgent := Some \<lparr> da_name = ''bot-1'', da_id = ''a1'', da_version = 1,
                                            da_prompt_params = [purpose_param] \<rparr> \<rparr>"

text \<open>Step 2 with the weather tool chosen and one override entered.\<close>

definition configured_state :: state where
  "configured_state =
     weather_state\<lparr> selected :=
       [(''mock-weather'', \<lparr> deploy_params = [(''auth_type'', Str ''managed_identity'')],
                              runtime_params = [] \<rparr>)] \<rparr>"

lemmas examples =
  initial_state_def weather_state_def weather_detail_def search_state_def search_detail_def
  plain_field_def draft_state_def draft_page_def no_page_def chat_state_def purpose_param_def
  tone_param_def answer_def configured_state_def operations_field_def
  basic_hint_field_def advanced_key_field_def gated_detail_def gated_state_def gated_groups_def
  odd_detail_def odd_state_def constructor_field_def extra_field_def style_param_def constructor_param_def weather_toggled_once_def
  weather_toggled_twice_def resumed_state_def

section \<open>Helper lemmas\<close>

lemma selected_renderStep: "selected (renderStep st) = selected st"
  by (simp add: renderStep_def renderChat_def renderChatParamForm_def Let_def)

lemma step_renderStep: "step (renderStep st) = step st"
  by (simp add: renderStep_def renderChat_def renderChatParamForm_def Let_def)

lemma renderStep_not_chat: "step st \<noteq> 5 \<Longrightarrow> renderStep st = st"
  by (simp add: renderStep_def)

lemma renderStep_confirmed: "chatParamsConfirmed st \<Longrightarrow> renderStep st = st"
  by (simp add: renderStep_def renderChat_def Let_def)

lemma js_get_plain:
  "\<not> inherited_name k \<Longrightarrow>
   js_get ob k = (case map_of ob k of Some v \<Rightarrow> Own v | None \<Rightarrow> Undefined)"
  by (simp add: js_get_def)

lemma js_get_Undefined: "(js_get ob k = Undefined) = (map_of ob k = None \<and> \<not> inherited_name k)"
  by (simp add: js_get_def split: option.splits)




lemma own_override_section: "own_override st t s k =
   (case map_of (selected st) t of None \<Rightarrow> None | Some e \<Rightarrow> map_of (section_of s e) k)"
  by (simp add: own_override_def section_of_def split: option.splits)

lemma own_override_renderStep: "own_override (renderStep st) t s k = own_override st t s k"
  by (simp add: own_override_def selected_renderStep)

lemma selected_ensure:
  "map_of (selected (ensure_selected t st)) t' =
     (if t' = t \<and> map_of (selected st) t = None \<and> \<not> inherited_name t
      then Some \<lparr> deploy_params = [], runtime_params = [] \<rparr> else map_of (selected st) t')"
  by (simp add: ensure_selected_def js_get_def update_conv' split: option.splits)

lemma ensure_selected_frame: "ensure_selected t st = st\<lparr> selected := selected (ensure_selected t st) \<rparr>"
  by (simp add: ensure_selected_def js_get_def split: option.splits)

lemma own_override_ensure: "own_override (ensure_selected t st) t' s' k' = own_override st t' s' k'"
  by (cases s') (simp_all add: own_override_def selected_ensure split: option.splits)

lemma section_of_set_section:
  "map_of (section_of s' (set_section s k v e)) k' =
     (if s' = s \<and> k' = k \<and> \<not> proto_setter (section_of s e) k then Some v
      else map_of (section_of s' e) k')"
  by (cases s; cases s') (simp_all add: section_of_def set_section_def js_set_def update_conv')

lemma selected_write:
  "map_of (selected (write_override t s k v st)) t' =
     (if t' = t then map_option (set_section s k v) (map_of (selected st) t)
      else map_of (selected st) t')"
  by (simp add: write_override_def map_of_map_entry split: option.splits)

lemma own_override_write:
  "map_of (selected st) t = Some e \<Longrightarrow>
   own_override (write_override t s k v st) t' s' k' =
     (if t' = t \<and> s' = s \<and> k' = k \<and> \<not> proto_setter (section_of s e) k then Some v
      else own_override st t' s' k')"
  by (simp add: own_override_section selected_write section_of_set_section)

lemma proto_setter_own:
  "map_of (selected st) t = Some e \<Longrightarrow>
   proto_setter (section_of s e) k = (k = ''__proto__'' \<and> own_override st t s k = None)"
  by (simp add: proto_setter_def own_override_section)

lemma setParam_proto_key_stores_nothing:
  "setParam ''mock-weather'' DeployParams ''__proto__'' ''x'' (weather_state, []) = Inr (weather_state, [])"
  by (simp add: examples setParam_def ensure_selected_def write_override_def set_section_def
      js_get_def js_set_def proto_setter_def inherited_name_def handleShowIf_def Let_def)

lemma setParam_result:
  assumes "setParam t s k v (st, els) = Inr (st', els')"
  shows "st' = write_override t s k (Str v) (ensure_selected t st)"
    and "els' = handleShowIf st' els"
    and "\<exists>e. map_of (selected (ensure_selected t st)) t = Some e"
  using assms by (auto simp: setParam_def Let_def split: option.splits)

lemma stored_override_own:
  "stored_override st t s k =
     (case map_of (selected st) t of
        None \<Rightarrow> None
      | Some e \<Rightarrow> (case own_override st t s k of
                     Some v \<Rightarrow> Some v
                   | None \<Rightarrow> (if inherited_name k then Some Member else None)))"
  by (simp add: stored_override_def read_value_def js_get_def own_override_section
      split: option.splits)

lemma currentVal_resolve:
  "\<not> (inherited_name ck \<and> map_of (selected st) t \<noteq> None \<and> own_override st t s ck = None) \<Longrightarrow>
   currentVal st t s ck = resolve_spec st t s ck"
  by (cases s)
     (auto simp: currentVal_def resolve_spec_def stored_override_own schema_of_def own_override_def
       split: option.splits)

lemma currentVal_inherited:
  "inherited_name ck \<Longrightarrow> map_of (selected st) t \<noteq> None \<Longrightarrow> own_override st t s ck = None \<Longrightarrow>
   currentVal st t s ck = Member"
  by (auto simp: currentVal_def stored_override_own split: option.splits)

lemma handleShowIf_nth:
  "i < length els \<Longrightarrow>
   handleShowIf st els ! i =
     (case showif (els ! i) of
        None \<Rightarrow> els ! i
      | Some a \<Rightarrow> (els ! i)\<lparr> display_none :=
            (currentVal st (showif_tool a) (showif_section a) (showif_key a) \<noteq> Str (showif_value a)) \<rparr>)"
  by (simp add: handleShowIf_def)

lemma handleShowIf_length: "length (handleShowIf st els) = length els"
  by (simp add: handleShowIf_def)

lemma handleShowIf_showif:
  "i < length els \<Longrightarrow> showif (handleShowIf st els ! i) = showif (els ! i)"
  by (simp add: handleShowIf_nth split: option.splits)

lemma passes_keep:
  "i < length els \<Longrightarrow>
   length (foldl (\<lambda>e s. handleShowIf s e) els sts) = length els
   \<and> showif (foldl (\<lambda>e s. handleShowIf s e) els sts ! i) = showif (els ! i)
   \<and> (showif (els ! i) = None \<longrightarrow> foldl (\<lambda>e s. handleShowIf s e) els sts ! i = els ! i)"
proof (induction sts arbitrary: els)
  case Nil
  then show ?case by simp
next
  case (Cons s sts)
  have i': "i < length (handleShowIf s els)"
    using Cons.prems by (simp add: handleShowIf_length)
  have s1: "showif (handleShowIf s els ! i) = showif (els ! i)"
    using Cons.prems by (rule handleShowIf_showif)
  have s2: "showif (els ! i) = None \<longrightarrow> handleShowIf s els ! i = els ! i"
    using Cons.prems by (simp add: handleShowIf_nth)
  show ?case
    using Cons.IH [OF i'] s1 s2 by (auto simp: handleShowIf_length)
qed

lemma parsed_group_Some: "parsed_group g = Some g' \<Longrightarrow> g' = g"
  by (simp add: parsed_group_def split: if_splits)

lemma toggleMultiParam_twice_stored:
  assumes own: "own_override st t s k = Some (Arr xs)"
  shows "\<exists>st1 st2 ys. toggleMultiParam t s k opt st = Inr st1
            \<and> toggleMultiParam t s k opt st1 = Inr st2
            \<and> own_override st2 t s k = Some (Arr ys) \<and> set ys = set xs"
proof -
  have step: "\<exists>st1. toggleMultiParam t s k opt st' = Inr st1
              \<and> own_override st1 t s k =
                  Some (Arr (if opt \<in> set zs then filter (\<lambda>x. x \<noteq> opt) zs else zs @ [opt]))"
    if o: "own_override st' t s k = Some (Arr zs)" for st' zs
  proof -
    from o obtain e where e: "map_of (selected st') t = Some e"
      and k: "map_of (section_of s e) k = Some (Arr zs)"
      by (auto simp: own_override_section split: option.splits)
    have en: "ensure_selected t st' = st'"
      using e by (simp add: ensure_selected_def js_get_def)
    have np: "\<not> proto_setter (section_of s e) k"
      using k by (simp add: proto_setter_def)
    have rd: "read_value (section_of s e) k = Some (Arr zs)"
      using k by (simp add: read_value_def js_get_def)
    show ?thesis
      using e np rd
      by (simp add: toggleMultiParam_def Let_def en own_override_renderStep own_override_write [OF e])
  qed
  from step [OF own] obtain st1 where r1: "toggleMultiParam t s k opt st = Inr st1"
    and o1: "own_override st1 t s k =
               Some (Arr (if opt \<in> set xs then filter (\<lambda>x. x \<noteq> opt) xs else xs @ [opt]))"
    by blast
  from step [OF o1] obtain st2 where r2: "toggleMultiParam t s k opt st1 = Inr st2"
    and o2: "own_override st2 t s k =
               Some (Arr (let zs = (if opt \<in> set xs then filter (\<lambda>x. x \<noteq> opt) xs else xs @ [opt])
                          in if opt \<in> set zs then filter (\<lambda>x. x \<noteq> opt) zs else zs @ [opt]))"
    by (auto simp: Let_def)
  have "set (let zs = (if opt \<in> set xs then filter (\<lambda>x. x \<noteq> opt) xs else xs @ [opt])
             in if opt \<in> set zs then filter (\<lambda>x. x \<noteq> opt) zs else zs @ [opt]) = set xs"
    by (auto simp: Let_def)
  with r1 r2 o2 show ?thesis by blast
qed

lemma required_check_plain:
  "\<forall>p \<in> set ps. \<not> inherited_name (pp_key p) \<Longrightarrow>
   required_check pv ps =
     Inr (find (\<lambda>p. pp_required p
                  \<and> (case map_of pv (pp_key p) of None \<Rightarrow> True | Some v \<Rightarrow> trim v = [])) ps)"
  by (induction ps) (auto simp: js_get_def split: option.splits)

lemma shown_value_plain:
  "\<not> inherited_name (pp_key p) \<Longrightarrow>
   shown_value st p =
     (case map_of (paramValues st) (pp_key p) of
        None \<Rightarrow> pp_default p
      | Some v \<Rightarrow> (if v = [] then pp_default p else v))"
  by (simp add: shown_value_def js_get_def split: option.splits)

lemma summary_lines_plain:
  "\<forall>p \<in> set ps. \<not> inherited_name (pp_key p) \<Longrightarrow>
   List.map_filter (summary_line st) ps =
     map (\<lambda>p. ''**'' @ (if pp_label p = [] then pp_key p else pp_label p) @ '':** ''
               @ (case map_of (paramValues st) (pp_key p) of
                    None \<Rightarrow> pp_default p
                  | Some v \<Rightarrow> (if v = [] then pp_default p else v)))
       (filter (\<lambda>p. (case map_of (paramValues st) (pp_key p) of
                        None \<Rightarrow> pp_default p
                      | Some v \<Rightarrow> (if v = [] then pp_default p else v)) \<noteq> []) ps)"
  by (induction ps)
     (auto simp: List.map_filter_simps summary_line_def shown_value_plain label_or_key_def Let_def)

lemma summary_line_confirmed:
  "summary_line (st\<lparr> chatParamsConfirmed := b \<rparr>) = summary_line st"
  by (rule ext) (simp add: summary_line_def shown_value_def)

lemma confirmChatParams_inherited_key:
  "confirmChatParams (chat_state [constructor_param] []) = Inl TypeError"
  by (simp add: examples confirmChatParams_def getActivePromptParams_def js_get_def inherited_name_def
      Let_def)

lemma sendChat_request_nonblank:
  "trim inp \<noteq> [] \<Longrightarrow>
   \<exists>req st1. sendChat_request inp st = Some (req, st1)
     \<and> previous_response_id req = previousResponseId st
     \<and> previousResponseId st1 = previousResponseId st"
  by (simp add: sendChat_request_def Let_def)

lemma sendChat_response_token:
  "previousResponseId (sendChat_response (ChatOk d) st) = response_id d"
  "previousResponseId (sendChat_response (ChatFailed err) st) = previousResponseId st"
  by (simp_all add: sendChat_response_def)

lemma one_at_a_time_length:
  "\<forall>t \<in> set turns. trim (fst t) \<noteq> [] \<Longrightarrow>
   length (sent_requests st (one_at_a_time turns)) = length turns"
proof (induction turns arbitrary: st)
  case Nil
  then show ?case by simp
next
  case (Cons t turns)
  obtain inp resp where t: "t = (inp, resp)" by (cases t)
  from Cons.prems t have nb: "trim inp \<noteq> []" and rest: "\<forall>t \<in> set turns. trim (fst t) \<noteq> []"
    by auto
  from sendChat_request_nonblank [OF nb, of st] obtain req st1
    where "sendChat_request inp st = Some (req, st1)" by blast
  then show ?case by (simp add: t Cons.IH [OF rest])
qed

lemma one_at_a_time_first:
  "\<forall>t \<in> set turns. trim (fst t) \<noteq> [] \<Longrightarrow> turns \<noteq> [] \<Longrightarrow>
   previous_response_id (sent_requests st (one_at_a_time turns) ! 0) = previousResponseId st"
proof (cases turns)
  case Nil
  assume "turns \<noteq> []"
  with Nil show ?thesis by simp
next
  case (Cons t rest)
  assume all: "\<forall>t \<in> set turns. trim (fst t) \<noteq> []"
  obtain inp resp where t: "t = (inp, resp)" by (cases t)
  from all Cons t have nb: "trim inp \<noteq> []" by auto
  from sendChat_request_nonblank [OF nb, of st] obtain req st1
    where "sendChat_request inp st = Some (req, st1)"
      and "previous_response_id req = previousResponseId st" by blast
  then show ?thesis by (simp add: Cons t)
qed

lemma one_at_a_time_next:
  "\<forall>t \<in> set turns. trim (fst t) \<noteq> [] \<Longrightarrow> Suc n < length turns \<Longrightarrow> snd (turns ! n) = ChatOk d \<Longrightarrow>
   previous_response_id (sent_requests st (one_at_a_time turns) ! Suc n) = response_id d"
proof (induction turns arbitrary: st n)
  case Nil
  then show ?case by simp
next
  case (Cons t turns)
  obtain inp resp where t: "t = (inp, resp)" by (cases t)
  from Cons.prems(1) t have nb: "trim inp \<noteq> []" and rest: "\<forall>t \<in> set turns. trim (fst t) \<noteq> []"
    by auto
  from sendChat_request_nonblank [OF nb, of st] obtain req st1
    where rq: "sendChat_request inp st = Some (req, st1)" by blast
  have unfold: "sent_requests st (one_at_a_time (t # turns)) ! Suc m
                  = sent_requests (sendChat_response resp st1) (one_at_a_time turns) ! m"
    for m by (simp add: t rq)
  show ?case
  proof (cases n)
    case 0
    with Cons.prems(3) t have resp: "resp = ChatOk d" by simp
    from Cons.prems(2) have ne: "turns \<noteq> []" by auto
    show ?thesis
      using one_at_a_time_first [OF rest ne, of "sendChat_response resp st1"]
      by (simp add: unfold 0 resp sendChat_response_token)
  next
    case (Suc m)
    with Cons.prems have "Suc m < length turns" "snd (turns ! m) = ChatOk d" by auto
    from Cons.IH [OF rest this] show ?thesis by (simp add: unfold Suc)
  qed
qed

lemma one_at_a_time_threads_token:
  assumes nonblank: "\<forall>t \<in> set turns. trim (fst t) \<noteq> []"
    and fresh: "previousResponseId st = None"
  shows "length (sent_requests st (one_at_a_time turns)) = length turns
       \<and> (turns \<noteq> [] \<longrightarrow> previous_response_id (sent_requests st (one_at_a_time turns) ! 0) = None)
       \<and> (\<forall>n d. Suc n < length turns \<and> snd (turns ! n) = ChatOk d \<longrightarrow>
             previous_response_id (sent_requests st (one_at_a_time turns) ! Suc n) = response_id d)"
  using one_at_a_time_length [OF nonblank] one_at_a_time_first [OF nonblank] fresh
    one_at_a_time_next [OF nonblank]
  by auto

lemma fresh_session:
  "previousResponseId initial_state = None"
  "previousResponseId (renderDeploy (DeployOk agent) st) = None"
  "previousResponseId (updateAgent st) = None"
  by (simp_all add: initial_state_def renderDeploy_def updateAgent_def renderStep_def renderChat_def
      renderChatParamForm_def Let_def split: option.splits)

lemma goToStep_4_scenario_B:
  "step (goToStep 4 (draft_page [] ''You are helpful'') (draft_state [] ''You are helpful'')) = 3
   \<and> step (goToStep 4 (draft_page ''bot-1'' ''You are helpful'') (draft_state [] ''You are helpful'')) = 4"
  by (simp add: examples goToStep_def trimmed_or_def trim_def is_space_def renderStep_def)

lemma goToStep_4_gate:
  "step st \<noteq> 4 \<Longrightarrow>
   (step (goToStep 4 page st) = 4) =
     (trimmed_or (agent_name_input page) (agentName st) \<noteq> []
      \<and> trimmed_or (agent_instructions_input page) (instructions st) \<noteq> [])"
  by (auto simp: goToStep_def Let_def step_renderStep)

subsection \<open>Visibility for ordinary keys\<close>

text \<open>
  Take the form group the page holds for a field, drawn by \<open>renderParamField\<close> and then
  passed through any number of \<open>handleShowIf\<close> runs, so shown or hidden by now. A field
  without \<open>show_if\<close> is shown. After one more run, a field with \<open>show_if = {k: v}\<close> is
  shown exactly when the resolved value of \<open>k\<close> in the same tool and section is the string
  \<open>v\<close>, unless \<open>k\<close> is an inherited name without stored override in an active tool: then
  the group is hidden. After \<open>setParam\<close> wrote a value to \<open>k\<close>, the group is shown exactly
  when that value is \<open>v\<close>.
\<close>

lemma visibility_follows_live_value:
  assumes drawn: "parsed_group (renderParamField st0 toolId sec key param) = Some g"
    and i: "i < length els0"
    and g: "els0 ! i = g"
    and els: "els = foldl (\<lambda>e s. handleShowIf s e) els0 sts"
  shows "(show_if param = None \<longrightarrow>
            \<not> display_none (els ! i) \<and> \<not> display_none (handleShowIf st els ! i))
       \<and> (\<forall>ck cv. show_if param = Some (ck, cv)
              \<and> \<not> (inherited_name ck \<and> map_of (selected st) toolId \<noteq> None
                      \<and> own_override st toolId sec ck = None) \<longrightarrow>
             (\<not> display_none (handleShowIf st els ! i)) = (resolve_spec st toolId sec ck = Str cv))
       \<and> (\<forall>ck cv. show_if param = Some (ck, cv)
              \<and> inherited_name ck \<and> map_of (selected st) toolId \<noteq> None
              \<and> own_override st toolId sec ck = None \<longrightarrow>
             display_none (handleShowIf st els ! i))
       \<and> (\<forall>ck cv v st' els'. show_if param = Some (ck, cv) \<and> ck \<noteq> ''__proto__''
              \<and> setParam toolId sec ck v (st, els) = Inr (st', els') \<longrightarrow>
             (\<not> display_none (els' ! i)) = (v = cv))"
proof -
  have g_def: "g = renderParamField st0 toolId sec key param"
    using drawn by (rule parsed_group_Some)
  have len: "length els = length els0"
    and sh: "showif (els ! i) = showif g"
    and keep: "showif g = None \<longrightarrow> els ! i = g"
    using passes_keep [OF i, of sts] g els by simp_all
  have i': "i < length els" using i len by simp
  have none: "show_if param = None \<Longrightarrow> showif g = None \<and> \<not> display_none g"
    by (simp add: g_def renderParamField_def Let_def)
  have some: "showif g = Some \<lparr> showif_tool = toolId, showif_section = sec, showif_key = ck,
                                showif_value = cv \<rparr>"
    if "show_if param = Some (ck, cv)" for ck cv
    using that by (simp add: g_def renderParamField_def Let_def)
  have pass: "(\<not> display_none (handleShowIf st'' els ! i)) = (currentVal st'' toolId sec ck = Str cv)"
    if "show_if param = Some (ck, cv)" for st'' ck cv
    using some [OF that] sh by (simp add: handleShowIf_nth [OF i'])
  have a: "show_if param = None \<longrightarrow>
            \<not> display_none (els ! i) \<and> \<not> display_none (handleShowIf st els ! i)"
    using none keep sh by (auto simp: handleShowIf_nth [OF i'])
  have b: "(\<not> display_none (handleShowIf st els ! i)) = (resolve_spec st toolId sec ck = Str cv)"
    if "show_if param = Some (ck, cv)"
      and "\<not> (inherited_name ck \<and> map_of (selected st) toolId \<noteq> None
               \<and> own_override st toolId sec ck = None)" for ck cv
    using pass [OF that(1), of st] currentVal_resolve [OF that(2)] by simp
  have c: "display_none (handleShowIf st els ! i)"
    if "show_if param = Some (ck, cv)" and "inherited_name ck"
      and "map_of (selected st) toolId \<noteq> None" and "own_override st toolId sec ck = None" for ck cv
    using pass [OF that(1), of st] currentVal_inherited [OF that(2) that(3) that(4)] by simp
  have d: "(\<not> display_none (els' ! i)) = (v = cv)"
    if sh': "show_if param = Some (ck, cv)" and np: "ck \<noteq> ''__proto__''"
      and run: "setParam toolId sec ck v (st, els) = Inr (st', els')" for ck cv v st' els'
  proof -
    from setParam_result [OF run] obtain e
      where st': "st' = write_override toolId sec ck (Str v) (ensure_selected toolId st)"
        and els': "els' = handleShowIf st' els"
        and e: "map_of (selected (ensure_selected toolId st)) toolId = Some e"
      by blast
    have own: "own_override st' toolId sec ck = Some (Str v)"
      using np by (simp add: st' own_override_write [OF e] proto_setter_def)
    then have "\<not> (inherited_name ck \<and> map_of (selected st') toolId \<noteq> None
                 \<and> own_override st' toolId sec ck = None)"
      by simp
    from currentVal_resolve [OF this] own have "currentVal st' toolId sec ck = Str v"
      by (simp add: resolve_spec_def)
    with pass [OF sh', of st'] show ?thesis by (simp add: els')
  qed
  show ?thesis using a b c d by blast
qed

text \<open>
  The tool with two dependent fields: by the default \<open>basic\<close> of \<open>mode\<close> the first is shown
  and the second hidden; after \<open>mode\<close> is set to \<open>advanced\<close> it is the other way round.
\<close>

lemma visibility_flips_example:
  "\<not> display_none (handleShowIf gated_state gated_groups ! 0)
   \<and> display_none (handleShowIf gated_state gated_groups ! 1)
   \<and> (\<exists>st' els'. setParam ''gated'' DeployParams ''mode'' ''advanced''
                      (gated_state, handleShowIf gated_state gated_groups) = Inr (st', els')
          \<and> display_none (els' ! 0) \<and> \<not> display_none (els' ! 1))"
proof -
  have d0: "parsed_group (renderParamField gated_state ''gated'' DeployParams ''basic_hint'' basic_hint_field)
              = Some (gated_groups ! 0)"
    by (simp add: gated_groups_def parsed_group_def attr_safe_def renderParamField_def
        basic_hint_field_def plain_field_def Let_def)
  have d1: "parsed_group (renderParamField gated_state ''gated'' DeployParams ''advanced_key'' advanced_key_field)
              = Some (gated_groups ! 1)"
    by (simp add: gated_groups_def parsed_group_def attr_safe_def renderParamField_def
        advanced_key_field_def plain_field_def Let_def)
  have i0: "0 < length gated_groups" and i1: "1 < length gated_groups"
    by (simp_all add: gated_groups_def)
  have s0: "show_if basic_hint_field = Some (''mode'', ''basic'')"
    and s1: "show_if advanced_key_field = Some (''mode'', ''advanced'')"
    by (simp_all add: basic_hint_field_def advanced_key_field_def plain_field_def)
  have ni: "\<not> inherited_name ''mode''"
    by (simp add: inherited_name_def)
  have r: "resolve_spec gated_state ''gated'' DeployParams ''mode'' = Str ''basic''"
    by (simp add: resolve_spec_def own_override_def gated_state_def gated_detail_def
        initial_state_def plain_field_def)
  note first0 = visibility_follows_live_value [OF d0 i0 refl, of gated_groups "[]" gated_state]
  note first1 = visibility_follows_live_value [OF d1 i1 refl, of gated_groups "[]" gated_state]
  have w0: "\<not> display_none (handleShowIf gated_state gated_groups ! 0)"
    using first0 s0 ni r by simp
  have w1: "display_none (handleShowIf gated_state gated_groups ! 1)"
    using first1 s1 ni r by simp
  have e: "handleShowIf gated_state gated_groups
             = foldl (\<lambda>e s. handleShowIf s e) gated_groups [gated_state]"
    by simp
  note then0 = visibility_follows_live_value [OF d0 i0 refl e, of gated_state]
  note then1 = visibility_follows_live_value [OF d1 i1 refl e, of gated_state]
  obtain st' els' where run: "setParam ''gated'' DeployParams ''mode'' ''advanced''
                      (gated_state, handleShowIf gated_state gated_groups) = Inr (st', els')"
    by (simp add: setParam_def ensure_selected_def js_get_def gated_state_def initial_state_def Let_def)
  have np: "''mode'' \<noteq> ''__proto__''" by simp
  have w2: "display_none (els' ! 0)"
    using then0 s0 np run by auto
  have w3: "\<not> display_none (els' ! 1)"
    using then1 s1 np run by auto
  show ?thesis using w0 w1 run w2 w3 by blast
qed

section \<open>Claims\<close>

subsection \<open>Deploy payload\<close>




subsection \<open>Multi-select toggling\<close>

text \<open>
  C2 at the weather tool with nothing entered: the chip \<open>getWeather\<close> is drawn selected
  from the default; the first toggle reads the stored override only, finds none, and stores
  \<open>[getWeather]\<close>, so the chip stays selected; the second toggle removes it, and the resolved
  list is empty instead of the original one.
\<close>

theorem toggleMultiParam_twice_drops_default:
  "map_of (detail_deploy_params weather_detail) ''operations'' = Some operations_field
   \<and> stored_override weather_state ''mock-weather'' DeployParams ''operations'' = None
   \<and> fg_chips (renderParamField weather_state ''mock-weather'' DeployParams ''operations'' operations_field)
     = [''getWeather'']
   \<and> toggleMultiParam ''mock-weather'' DeployParams ''operations'' ''getWeather'' weather_state
     = Inr weather_toggled_once
   \<and> fg_chips (renderParamField weather_toggled_once ''mock-weather'' DeployParams ''operations'' operations_field)
     = [''getWeather'']
   \<and> toggleMultiParam ''mock-weather'' DeployParams ''operations'' ''getWeather'' weather_toggled_once
     = Inr weather_toggled_twice
   \<and> fg_chips (renderParamField weather_toggled_twice ''mock-weather'' DeployParams ''operations'' operations_field)
     = []"
  by (simp add: examples renderParamField_def paramValue_def array_or_empty_def toggleMultiParam_def
      stored_override_def read_value_def js_get_def inherited_name_def proto_setter_def js_set_def
      section_of_def ensure_selected_def write_override_def set_section_def renderStep_def Let_def)

subsection \<open>Navigation gates\<close>

text \<open>
  C3, as the code has it. \<open>goToStep(3)\<close> checks nothing: it always sets the step to 3 and
  leaves the rest of the state as it was.
\<close>

theorem goToStep_3_always_permitted: "goToStep 3 page st = st\<lparr> step := 3 \<rparr>"
  by (simp add: goToStep_def renderStep_def)

theorem goToStep_3_always_permitted_witness:
  "goToStep 3 no_page weather_state = weather_state\<lparr> step := 3 \<rparr>"
  using goToStep_3_always_permitted [of no_page weather_state] by simp

text \<open>
  The search tool's required \<open>api_key\<close> resolves to the empty string, and the wizard still
  moves from step 2 to step 3.
\<close>

theorem goToStep_3_with_required_field_empty:
  "required (plain_field ''API key'' ''password'' None True)
   \<and> map_of (detail_deploy_params search_detail) ''api_key''
        = Some (plain_field ''API key'' ''password'' None True)
   \<and> paramValue search_state ''search'' DeployParams ''api_key''
        (plain_field ''API key'' ''password'' None True) = Str []
   \<and> step search_state = 2
   \<and> step (goToStep 3 no_page search_state) = 3"
  by (simp add: examples goToStep_def renderStep_def paramValue_def stored_override_def section_of_def
      read_value_def js_get_def inherited_name_def)

subsection \<open>Storing an override\<close>

text \<open>
  C4, as the code has it. \<open>setParam\<close> looks neither at the schema nor at whether the tool
  is active, and it raises no schema error. It creates the Selection entry of a tool that
  has none, stores the value under the key of the section, and leaves every other stored
  override, every other entry and the rest of the state as they were. The reads of plain
  objects add two cases: a tool id that names a member of \<open>Object.prototype\<close> and has no
  entry gets none, and the write throws a \<open>TypeError\<close>; the key \<open>__proto__\<close> stores
  nothing.
\<close>

theorem setParam_stores_or_throws:
  "(map_of (selected st) t = None \<and> inherited_name t \<longrightarrow>
      setParam t s k v (st, els) = Inl TypeError)
   \<and> (\<not> (map_of (selected st) t = None \<and> inherited_name t) \<longrightarrow>
      (\<exists>st'. setParam t s k v (st, els) = Inr (st', handleShowIf st' els)
         \<and> st' = st\<lparr> selected := selected st' \<rparr>
         \<and> map_of (selected st') t \<noteq> None
         \<and> (\<forall>t'. t' \<noteq> t \<longrightarrow> map_of (selected st') t' = map_of (selected st) t')
         \<and> (\<forall>t' s' k'. own_override st' t' s' k' =
               (if t' = t \<and> s' = s \<and> k' = k \<and> \<not> (k = ''__proto__'' \<and> own_override st t s k = None)
                then Some (Str v) else own_override st t' s' k'))))"
proof (intro conjI impI)
  assume "map_of (selected st) t = None \<and> inherited_name t"
  then show "setParam t s k v (st, els) = Inl TypeError"
    by (simp add: setParam_def Let_def selected_ensure)
next
  assume ok: "\<not> (map_of (selected st) t = None \<and> inherited_name t)"
  let ?st1 = "ensure_selected t st"
  from ok obtain e where e: "map_of (selected ?st1) t = Some e"
    by (cases "map_of (selected st) t") (auto simp: selected_ensure)
  let ?st' = "write_override t s k (Str v) ?st1"
  have run: "setParam t s k v (st, els) = Inr (?st', handleShowIf ?st' els)"
    using e by (simp add: setParam_def Let_def)
  have frame: "?st' = st\<lparr> selected := selected ?st' \<rparr>"
    by (subst (1) ensure_selected_frame) (simp add: write_override_def)
  have act: "map_of (selected ?st') t \<noteq> None"
    using e by (simp add: selected_write)
  have others: "\<forall>t'. t' \<noteq> t \<longrightarrow> map_of (selected ?st') t' = map_of (selected st) t'"
    by (simp add: selected_write selected_ensure)
  have same: "own_override ?st1 t s k = own_override st t s k"
    by (rule own_override_ensure)
  have own: "\<forall>t' s' k'. own_override ?st' t' s' k' =
               (if t' = t \<and> s' = s \<and> k' = k \<and> \<not> (k = ''__proto__'' \<and> own_override st t s k = None)
                then Some (Str v) else own_override st t' s' k')"
    using proto_setter_own [OF e, of s k]
    by (simp add: own_override_write [OF e] own_override_ensure)
  show "\<exists>st'. setParam t s k v (st, els) = Inr (st', handleShowIf st' els)
         \<and> st' = st\<lparr> selected := selected st' \<rparr>
         \<and> map_of (selected st') t \<noteq> None
         \<and> (\<forall>t'. t' \<noteq> t \<longrightarrow> map_of (selected st') t' = map_of (selected st) t')
         \<and> (\<forall>t' s' k'. own_override st' t' s' k' =
               (if t' = t \<and> s' = s \<and> k' = k \<and> \<not> (k = ''__proto__'' \<and> own_override st t s k = None)
                then Some (Str v) else own_override st t' s' k'))"
    using run frame act others own by blast
qed

theorem setParam_stores_or_throws_witness:
  "(\<exists>st'. setParam ''mock-weather'' DeployParams ''auth_type'' ''managed_identity'' (weather_state, [])
             = Inr (st', [])
       \<and> own_override st' ''mock-weather'' DeployParams ''auth_type'' = Some (Str ''managed_identity'')
       \<and> own_override st' ''mock-weather'' DeployParams ''spec_url'' = None)
   \<and> setParam ''constructor'' DeployParams ''auth_type'' ''managed_identity'' (weather_state, [])
       = Inl TypeError"
proof -
  have a: "\<not> (map_of (selected weather_state) ''mock-weather'' = None \<and> inherited_name ''mock-weather'')"
    by (simp add: weather_state_def initial_state_def)
  have b: "map_of (selected weather_state) ''constructor'' = None \<and> inherited_name ''constructor''"
    by (simp add: weather_state_def initial_state_def inherited_name_def)
  have c: "own_override weather_state ''mock-weather'' DeployParams ''spec_url'' = None"
    by (simp add: own_override_def weather_state_def initial_state_def)
  from a setParam_stores_or_throws [of weather_state "''mock-weather''" DeployParams "''auth_type''"
      "''managed_identity''" "[]"]
  obtain st' where
    "setParam ''mock-weather'' DeployParams ''auth_type'' ''managed_identity'' (weather_state, [])
       = Inr (st', handleShowIf st' [])"
    and "\<forall>t' s' k'. own_override st' t' s' k' =
               (if t' = ''mock-weather'' \<and> s' = DeployParams \<and> k' = ''auth_type''
                   \<and> \<not> (''auth_type'' = ''__proto__'' \<and> own_override weather_state ''mock-weather'' DeployParams ''auth_type'' = None)
                then Some (Str ''managed_identity'') else own_override weather_state t' s' k')"
    by blast
  then have first: "\<exists>st'. setParam ''mock-weather'' DeployParams ''auth_type'' ''managed_identity'' (weather_state, [])
             = Inr (st', [])
       \<and> own_override st' ''mock-weather'' DeployParams ''auth_type'' = Some (Str ''managed_identity'')
       \<and> own_override st' ''mock-weather'' DeployParams ''spec_url'' = None"
    using c by (auto simp: handleShowIf_def)
  from b setParam_stores_or_throws [of weather_state "''constructor''" DeployParams "''auth_type''"
      "''managed_identity''" "[]"]
  have second: "setParam ''constructor'' DeployParams ''auth_type'' ''managed_identity'' (weather_state, [])
       = Inl TypeError"
    by blast
  show ?thesis using first second by blast
qed

text \<open>
  With no tool chosen, \<open>setParam\<close> on the weather tool and a key no schema declares
  creates the Selection entry and stores the value; with the tool chosen and its detail
  loaded, the undeclared key is stored as well.
\<close>

theorem setParam_inactive_undeclared_is_stored:
  "map_of (selected initial_state) ''mock-weather'' = None
   \<and> setParam ''mock-weather'' DeployParams ''nope'' ''x'' (initial_state, [])
       = Inr (initial_state\<lparr> selected :=
                 [(''mock-weather'', \<lparr> deploy_params = [(''nope'', Str ''x'')], runtime_params = [] \<rparr>)] \<rparr>, [])
   \<and> map_of (selected weather_state) ''mock-weather'' \<noteq> None
   \<and> map_of (detail_deploy_params weather_detail) ''nope'' = None
   \<and> setParam ''mock-weather'' DeployParams ''nope'' ''x'' (weather_state, [])
       = Inr (weather_state\<lparr> selected :=
                 [(''mock-weather'', \<lparr> deploy_params = [(''nope'', Str ''x'')], runtime_params = [] \<rparr>)] \<rparr>, [])"
  by (simp add: examples setParam_def ensure_selected_def write_override_def set_section_def
      js_get_def js_set_def proto_setter_def inherited_name_def handleShowIf_def Let_def)

subsection \<open>Conditional visibility\<close>

text \<open>
  C5 at a tool whose field \<open>extra\<close> is to be shown when its field \<open>constructor\<close> is \<open>x\<close>,
  with \<open>x\<close> the default of \<open>constructor\<close> and nothing entered. The resolved value of
  \<open>constructor\<close> is \<open>x\<close>; but the read of the stored override in \<open>handleShowIf\<close> finds the
  member that the empty parameter map inherits, which is not nullish, so the default is
  never looked at and the group of \<open>extra\<close> is hidden.
\<close>

theorem dependent_hidden_for_inherited_key:
  "map_of (selected odd_state) ''odd'' = Some \<lparr> deploy_params = [], runtime_params = [] \<rparr>
   \<and> map_of (detail_deploy_params odd_detail) ''constructor'' = Some constructor_field
   \<and> default_val constructor_field = Some (Str ''x'')
   \<and> show_if extra_field = Some (''constructor'', ''x'')
   \<and> resolve_spec odd_state ''odd'' DeployParams ''constructor'' = Str ''x''
   \<and> parsed_group (renderParamField odd_state ''odd'' DeployParams ''extra'' extra_field)
        = Some (renderParamField odd_state ''odd'' DeployParams ''extra'' extra_field)
   \<and> currentVal odd_state ''odd'' DeployParams ''constructor'' = Member
   \<and> display_none
        (handleShowIf odd_state [renderParamField odd_state ''odd'' DeployParams ''extra'' extra_field] ! 0)"
  by (simp add: examples resolve_spec_def own_override_def parsed_group_def attr_safe_def
      renderParamField_def paramValue_def handleShowIf_def currentVal_def stored_override_def
      read_value_def js_get_def inherited_name_def section_of_def schema_of_def Let_def)

subsection \<open>Confirming chat parameters\<close>

text \<open>
  C6, as the code has it, for prompt parameters whose keys \<open>Object.prototype\<close> does not
  define. While a required parameter has no stored value or one that is blank after
  trimming, \<open>confirmChatParams\<close> alerts and leaves the state as it was. Otherwise it sets
  \<open>chatParamsConfirmed\<close> and appends one context message with a line "label or key, value"
  for every parameter whose value (the stored one, else the default) is not empty; when
  there is no such parameter it appends nothing.
\<close>

theorem confirmChatParams_gate:
  assumes plain: "\<forall>p \<in> set (getActivePromptParams st). \<not> inherited_name (pp_key p)"
  shows
    "(if \<exists>p \<in> set (getActivePromptParams st). pp_required p
           \<and> (case map_of (paramValues st) (pp_key p) of None \<Rightarrow> True | Some v \<Rightarrow> trim v = [])
      then \<exists>msg. confirmChatParams st = Inr (Some msg, st)
      else confirmChatParams st =
        Inr (None,
          st\<lparr> chatParamsConfirmed := True,
              chatHistory := chatHistory st @
                (let val = (\<lambda>p. case map_of (paramValues st) (pp_key p) of
                                  None \<Rightarrow> pp_default p
                                | Some v \<Rightarrow> (if v = [] then pp_default p else v));
                     listed = filter (\<lambda>p. val p \<noteq> []) (getActivePromptParams st)
                 in if listed = [] then []
                    else [\<lparr> role = Context,
                            content = ''Agent parameters set:'' @ [CHR 0x0A]
                              @ join [CHR 0x0A]
                                  (map (\<lambda>p. ''**'' @ (if pp_label p = [] then pp_key p else pp_label p)
                                             @ '':** '' @ val p) listed),
                            toolCalls = None \<rparr>]) \<rparr>))"
proof (cases "find (\<lambda>p. pp_required p
                  \<and> (case map_of (paramValues st) (pp_key p) of None \<Rightarrow> True | Some v \<Rightarrow> trim v = []))
                (getActivePromptParams st)")
  case None
  then have no: "\<not> (\<exists>p \<in> set (getActivePromptParams st). pp_required p
           \<and> (case map_of (paramValues st) (pp_key p) of None \<Rightarrow> True | Some v \<Rightarrow> trim v = []))"
    by (simp add: find_None_iff)
  have chk: "required_check (paramValues st) (getActivePromptParams st) = Inr None"
    using None by (simp add: required_check_plain [OF plain])
  show ?thesis
    using no chk
    by (simp add: confirmChatParams_def Let_def summary_line_confirmed renderStep_confirmed
        summary_lines_plain [OF plain] context_message_def)
next
  case (Some p)
  then have "p \<in> set (getActivePromptParams st) \<and> pp_required p
           \<and> (case map_of (paramValues st) (pp_key p) of None \<Rightarrow> True | Some v \<Rightarrow> trim v = [])"
    by (auto simp: find_Some_iff)
  then have yes: "\<exists>p \<in> set (getActivePromptParams st). pp_required p
           \<and> (case map_of (paramValues st) (pp_key p) of None \<Rightarrow> True | Some v \<Rightarrow> trim v = [])"
    by blast
  have chk: "required_check (paramValues st) (getActivePromptParams st) = Inr (Some p)"
    using Some by (simp add: required_check_plain [OF plain])
  show ?thesis
    using yes chk by (simp add: confirmChatParams_def Let_def)
qed

text \<open>
  A required parameter without a stored value, with a value of two spaces, and one that
  comes with the deployed agent: refused. A padded value and an unlabelled optional parameter left empty: confirmed, with the stored
  text as it is and the default under the key.
\<close>

theorem confirmChatParams_gate_witness:
  "(\<exists>msg. confirmChatParams (chat_state [purpose_param] [])
            = Inr (Some msg, chat_state [purpose_param] []))
   \<and> (\<exists>msg. confirmChatParams (chat_state [purpose_param] [(''purpose'', ''  '')])
            = Inr (Some msg, chat_state [purpose_param] [(''purpose'', ''  '')]))
   \<and> (\<exists>msg. confirmChatParams resumed_state = Inr (Some msg, resumed_state))
   \<and> confirmChatParams (chat_state [purpose_param, style_param]
                          [(''purpose'', '' follow-up''), (''style'', [])])
       = Inr (None,
           (chat_state [purpose_param, style_param] [(''purpose'', '' follow-up''), (''style'', [])])
             \<lparr> chatParamsConfirmed := True,
               chatHistory :=
                 [\<lparr> role = Context,
                    content = ''Agent parameters set:'' @ [CHR 0x0A] @ ''**Purpose of email:**  follow-up''
                               @ [CHR 0x0A] @ ''**style:** formal'',
                    toolCalls = None \<rparr>] \<rparr>)"
proof -
  let ?a = "chat_state [purpose_param] []"
  let ?b = "chat_state [purpose_param] [(''purpose'', ''  '')]"
  let ?c = "chat_state [purpose_param, style_param] [(''purpose'', '' follow-up''), (''style'', [])]"
  have pr: "\<forall>p \<in> set (getActivePromptParams resumed_state). \<not> inherited_name (pp_key p)"
    by (simp add: examples getActivePromptParams_def inherited_name_def)
  have gr: "getActivePromptParams resumed_state = [purpose_param]"
    and vr: "paramValues resumed_state = []"
    by (simp_all add: resumed_state_def initial_state_def getActivePromptParams_def)
  have cr: "\<exists>p \<in> set (getActivePromptParams resumed_state). pp_required p
           \<and> (case map_of (paramValues resumed_state) (pp_key p) of None \<Rightarrow> True | Some v \<Rightarrow> trim v = [])"
    unfolding gr vr by (simp add: purpose_param_def)
  have r: "\<exists>msg. confirmChatParams resumed_state = Inr (Some msg, resumed_state)"
    using confirmChatParams_gate [OF pr] cr by (simp only: if_True)
  have pa: "\<forall>p \<in> set (getActivePromptParams ?a). \<not> inherited_name (pp_key p)"
    and pb: "\<forall>p \<in> set (getActivePromptParams ?b). \<not> inherited_name (pp_key p)"
    and pc: "\<forall>p \<in> set (getActivePromptParams ?c). \<not> inherited_name (pp_key p)"
    by (simp_all add: examples getActivePromptParams_def inherited_name_def)
  have ga: "getActivePromptParams ?a = [purpose_param]"
    and gb: "getActivePromptParams ?b = [purpose_param]"
    and gc: "getActivePromptParams ?c = [purpose_param, style_param]"
    by (simp_all add: chat_state_def initial_state_def getActivePromptParams_def)
  have va: "paramValues ?a = []"
    and vb: "paramValues ?b = [(''purpose'', ''  '')]"
    and vc: "paramValues ?c = [(''purpose'', '' follow-up''), (''style'', [])]"
    and hc: "chatHistory ?c = []"
    by (simp_all add: chat_state_def initial_state_def)
  have ca: "\<exists>p \<in> set (getActivePromptParams ?a). pp_required p
           \<and> (case map_of (paramValues ?a) (pp_key p) of None \<Rightarrow> True | Some v \<Rightarrow> trim v = [])"
    unfolding ga va by (simp add: purpose_param_def)
  have cb: "\<exists>p \<in> set (getActivePromptParams ?b). pp_required p
           \<and> (case map_of (paramValues ?b) (pp_key p) of None \<Rightarrow> True | Some v \<Rightarrow> trim v = [])"
    unfolding gb vb by (simp add: purpose_param_def trim_def is_space_def)
  have cc: "\<not> (\<exists>p \<in> set (getActivePromptParams ?c). pp_required p
           \<and> (case map_of (paramValues ?c) (pp_key p) of None \<Rightarrow> True | Some v \<Rightarrow> trim v = []))"
    unfolding gc vc by (simp add: purpose_param_def style_param_def trim_def is_space_def)
  have a: "\<exists>msg. confirmChatParams ?a = Inr (Some msg, ?a)"
    using confirmChatParams_gate [OF pa] ca by (simp only: if_True)
  have b: "\<exists>msg. confirmChatParams ?b = Inr (Some msg, ?b)"
    using confirmChatParams_gate [OF pb] cb by (simp only: if_True)
  have c: "confirmChatParams ?c
       = Inr (None, ?c\<lparr> chatParamsConfirmed := True,
               chatHistory :=
                 [\<lparr> role = Context,
                    content = ''Agent parameters set:'' @ [CHR 0x0A] @ ''**Purpose of email:**  follow-up''
                               @ [CHR 0x0A] @ ''**style:** formal'',
                    toolCalls = None \<rparr>] \<rparr>)"
    using confirmChatParams_gate [OF pc, unfolded if_not_P [OF cc], unfolded gc vc hc]
    by (simp add: purpose_param_def style_param_def Let_def)
  show ?thesis using a b r c by blast
qed

text \<open>
  One optional parameter with an empty value: the confirmation succeeds and the history
  stays empty.
\<close>

theorem confirmChatParams_no_message_when_all_empty:
  "chatHistory (chat_state [tone_param] [(''tone'', [])]) = []
   \<and> confirmChatParams (chat_state [tone_param] [(''tone'', [])])
       = Inr (None, (chat_state [tone_param] [(''tone'', [])])\<lparr> chatParamsConfirmed := True \<rparr>)"
  by (simp add: examples confirmChatParams_def getActivePromptParams_def js_get_def inherited_name_def
      List.map_filter_def summary_line_def shown_value_def renderStep_def renderChat_def Let_def)

subsection \<open>Continuation token\<close>

text \<open>
  C7 at a conversation in which the second message is sent, with the Enter key, before the
  first answer has arrived: the second request carries no \<open>previous_response_id\<close>, although
  the first turn is answered with \<open>resp_1\<close>; only the third request carries a token.
\<close>

theorem overlapping_sends_reuse_token:
  "map previous_response_id
     (sent_requests (chat_state [] [])
        [Send ''hello'', Send ''weather?'', Receive (answer ''resp_1'' ''Hi''),
         Receive (answer ''resp_2'' ''Sunny''), Send ''thanks''])
   = [None, None, Some ''resp_2'']"
  by (simp add: examples sendChat_request_def sendChat_response_def trim_def is_space_def Let_def)

subsection \<open>Deploy result\<close>

text \<open>
  C8, as the code has it. A failed deployment writes nothing: the state, the step
  included, is what it was when the request was sent, and \<open>goToStep(3)\<close> from the failure
  panel then changes the step only. A successful deployment moves to step 5 holding the
  returned agent.
\<close>

theorem renderDeploy_failure_keeps_state:
  "renderDeploy (DeployFailed err) st = st
   \<and> goToStep 3 page (renderDeploy (DeployFailed err) st) = st\<lparr> step := 3 \<rparr>
   \<and> step (renderDeploy (DeployOk agent) st) = 5
   \<and> deployedAgent (renderDeploy (DeployOk agent) st) = Some agent"
  by (simp add: renderDeploy_def goToStep_def renderStep_def renderChat_def renderChatParamForm_def
      Let_def)

theorem renderDeploy_failure_keeps_state_witness:
  "goToStep 3 no_page (renderDeploy (DeployFailed ''HTTP 500'') ((draft_state ''bot-1'' ''You are helpful'')\<lparr> step := 4 \<rparr>))
     = draft_state ''bot-1'' ''You are helpful''
   \<and> step (renderDeploy
         (DeployOk \<lparr> da_name = ''bot-1'', da_id = ''a1'', da_version = 1, da_prompt_params = [] \<rparr>)
         ((draft_state ''bot-1'' ''You are helpful'')\<lparr> step := 4 \<rparr>)) = 5"
proof -
  let ?s = "(draft_state ''bot-1'' ''You are helpful'')\<lparr> step := 4 \<rparr>"
  let ?a = "\<lparr> da_name = ''bot-1'', da_id = ''a1'', da_version = 1, da_prompt_params = [] \<rparr>"
  note t = renderDeploy_failure_keeps_state [of "''HTTP 500''" ?s no_page ?a]
  from t have fail3: "goToStep 3 no_page (renderDeploy (DeployFailed ''HTTP 500'') ?s) = ?s\<lparr> step := 3 \<rparr>"
    by blast
  from t have ok: "step (renderDeploy (DeployOk ?a) ?s) = 5"
    by blast
  have same: "?s\<lparr> step := 3 \<rparr> = draft_state ''bot-1'' ''You are helpful''"
    by (simp add: draft_state_def)
  show ?thesis
    using fail3 ok same by simp
qed

text \<open>
  A valid draft is submitted and the deployment fails: the wizard is still on step 4.
\<close>

theorem renderDeploy_failure_stays_on_deploy_step:
  "step (goToStep 4 (draft_page ''bot-1'' ''You are helpful'') (draft_state ''bot-1'' ''You are helpful'')) = 4
   \<and> step (renderDeploy (DeployFailed ''HTTP 500'')
        (goToStep 4 (draft_page ''bot-1'' ''You are helpful'') (draft_state ''bot-1'' ''You are helpful''))) = 4"
  by (simp add: examples goToStep_def trimmed_or_def trim_def is_space_def renderStep_def renderDeploy_def)

subsection \<open>Deploy gate\<close>

text \<open>
  C9 at a name of one space, in the state and in the input alike: the trimmed input is
  empty, \<open>goToStep(4)\<close> falls back to the untrimmed name of the state, finds it non-empty
  and moves to step 4; the payload then carries the empty name.
\<close>

theorem goToStep_4_accepts_whitespace_name:
  "trim '' '' = []
   \<and> step (goToStep 4 (draft_page '' '' ''You are helpful'') (draft_state '' '' ''You are helpful'')) = 4
   \<and> payload_name (renderDeploy_payload
        (goToStep 4 (draft_page '' '' ''You are helpful'') (draft_state '' '' ''You are helpful''))) = []"
  by (simp add: examples goToStep_def trimmed_or_def trim_def is_space_def renderStep_def
      renderDeploy_payload_def)

subsection \<open>Deactivating a tool\<close>



end
